theory Spec2Isabelle
  imports Main "HOL-Library.Word"
begin

unbundle bit_operations_syntax

section \<open>Vulkan tensor storage: data model\<close>

text \<open>
  A shallow embedding of \<^verbatim>\<open>backends/vulkan/runtime/api/Tensor.cpp\<close>.
  An \<^verbatim>\<open>int64_t\<close> is an \<open>int\<close> between \<open>- 2 ^ 63\<close> and \<open>2 ^ 63 - 1\<close>; where the
  code does arithmetic on such values the 64-bit wrap-around is written out.
  \<^verbatim>\<open>uint32_t\<close> is \<open>32 word\<close> read by \<open>uint\<close>, and \<^verbatim>\<open>int32_t\<close> is \<open>32 word\<close> read
  by \<open>sint\<close>.
  An exception thrown by \<^verbatim>\<open>VK_CHECK_COND\<close> or \<^verbatim>\<open>VK_THROW\<close> is the \<open>Inl\<close> of a
  result. The object state at the throw is kept for \<^verbatim>\<open>discard_and_reallocate\<close>, which
  changes the storage before the calls that can throw, and not for the other
  operations.
\<close>

datatype StorageType = kBuffer | kTexture3D | kTexture2D

datatype GPUMemoryLayout = kWidthPacked | kHeightPacked | kChannelsPacked

text \<open>The check that failed, one constructor per throwing site.\<close>

datatype failed_check =
    TextureNdimSizes      \<comment> \<open>"Texture storage only valid for 0 <= ndim <= 4, received: "\<close>
  | TextureNdimExtents    \<comment> \<open>"Texture storage only valid for 1 <= ndim <= 4!"\<close>
  | WidthNotDivisible     \<comment> \<open>"Width must be divisible by 4!"\<close>
  | HeightNotDivisible    \<comment> \<open>"Height must be divisible by 4!"\<close>
  | ChannelsNotDivisible  \<comment> \<open>"Channels must be divisible by 4!"\<close>
  | InvalidMemoryFormat   \<comment> \<open>"Invalid memory format used!"\<close>
  | CastOutOfRange        \<comment> \<open>thrown inside \<^verbatim>\<open>safe_downcast\<close>\<close>
  | LargerTexture         \<comment> \<open>"Cannot use virtual resize if new sizes requires a larger texture."\<close>

datatype error =
    InvalidArgument failed_check
  | UnsupportedConfiguration
  | DeviceResourceExhausted

datatype 'a vec3 = Vec3 'a 'a 'a

type_synonym uvec3 = "32 word vec3"
type_synonym ivec3 = "32 word vec3"

text \<open>\<^verbatim>\<open>v.data[i]\<close> for \<open>i\<close> in 0, 1, 2.\<close>

fun data :: "'a vec3 \<Rightarrow> nat \<Rightarrow> 'a" where
  "data (Vec3 x y z) i = (if i = 0 then x else if i = 1 then y else z)"

section \<open>Helpers of api::utils\<close>

text \<open>
  Modelled from the spec: \<^verbatim>\<open>api::utils::val_at\<close> (Utils.h). A negative index counts
  from the end of the shape (\<open>-1\<close> is the last entry), and an entry the shape does
  not have reads as 1 ("right-aligned, missing = 1"). A non-negative index, which
  this file never passes, counts from the front in the same way.
\<close>

definition val_at :: "int \<Rightarrow> int list \<Rightarrow> int" where
  "val_at index sizes =
     (let ndim = int (length sizes) in
      if 0 \<le> index then (if ndim \<le> index then 1 else sizes ! nat index)
      else (if 0 \<le> ndim + index then sizes ! nat (ndim + index) else 1))"

text \<open>
  Arithmetic on \<^verbatim>\<open>int64_t\<close>: a result outside the type wraps around, and division
  truncates towards zero.
\<close>

definition wrap_int64 :: "int \<Rightarrow> int" where
  "wrap_int64 v = (v + 2 ^ 63) mod 2 ^ 64 - 2 ^ 63"

definition int64_div :: "int \<Rightarrow> int \<Rightarrow> int" where
  "int64_div a b = (if (a < 0) = (b < 0) then \<bar>a\<bar> div \<bar>b\<bar> else - (\<bar>a\<bar> div \<bar>b\<bar>))"

text \<open>
  Modelled from the spec: \<^verbatim>\<open>api::utils::align_up\<close> (Utils.h), "round up to the next
  multiple" of the second argument, computed on \<^verbatim>\<open>int64_t\<close> as
  \<open>(number + multiple - 1) / multiple * multiple\<close>.
\<close>

definition align_up :: "int \<Rightarrow> int \<Rightarrow> int" where
  "align_up number multiple =
     wrap_int64 (int64_div (wrap_int64 (number + multiple - 1)) multiple * multiple)"

text \<open>
  Modelled from the spec: \<^verbatim>\<open>api::utils::safe_downcast\<close> (Utils.h), the checked
  narrowing cast. The spec lists no error of its own for it; the cast throws when the
  value does not fit the target type. Two instances are used: \<^verbatim>\<open>int64_t\<close> to
  \<^verbatim>\<open>uint32_t\<close> and \<^verbatim>\<open>uint32_t\<close> to \<^verbatim>\<open>int32_t\<close>.
\<close>

definition safe_downcast_u32 :: "int \<Rightarrow> error + 32 word" where
  "safe_downcast_u32 v =
     (if 0 \<le> v \<and> v < 2 ^ 32 then Inr (word_of_int v) else Inl (InvalidArgument CastOutOfRange))"

definition safe_downcast_i32 :: "32 word \<Rightarrow> error + 32 word" where
  "safe_downcast_i32 v =
     (if uint v < 2 ^ 31 then Inr v else Inl (InvalidArgument CastOutOfRange))"

text \<open>
  Modelled from the spec: \<^verbatim>\<open>api::utils::multiply_integers\<close> (Utils.h), the element
  count of a shape (shape \<open>[12]\<close> has "buffer element count = 12"), accumulated from
  1 on \<^verbatim>\<open>int64_t\<close>.
\<close>

definition multiply_integers :: "int list \<Rightarrow> int" where
  "multiply_integers xs = foldl (\<lambda>a b. wrap_int64 (a * b)) 1 xs"

section \<open>Layout calculator\<close>

text \<open>
  \<^verbatim>\<open>calc_gpu_sizes\<close>. The buffer branch copies the shape entry by entry, the texture
  branch checks the rank and builds four entries; the \<^verbatim>\<open>switch\<close> then overwrites the
  packed entry. \<^verbatim>\<open>sizes.size() >= 0\<close> holds of every \<^verbatim>\<open>size_t\<close>.
\<close>

definition calc_gpu_sizes :: "int list \<Rightarrow> GPUMemoryLayout \<Rightarrow> StorageType \<Rightarrow> error + int list" where
  "calc_gpu_sizes sizes memory_layout storage_type =
     (case (if storage_type = kBuffer
            then Inr (map (\<lambda>i. sizes ! i) [0 ..< length sizes])
            else if \<not> length sizes \<le> 4
            then Inl (InvalidArgument TextureNdimSizes)
            else Inr [val_at (- 4) sizes, val_at (- 3) sizes,
                      val_at (- 2) sizes, val_at (- 1) sizes]) of
        Inl e \<Rightarrow> Inl e
      | Inr gpu_sizes \<Rightarrow>
          (let ndim = length gpu_sizes in
           Inr (case memory_layout of
                  kWidthPacked \<Rightarrow>
                    if 1 \<le> ndim
                    then gpu_sizes[ndim - 1 := align_up (val_at (- 1) sizes) 4]
                    else gpu_sizes
                | kHeightPacked \<Rightarrow>
                    if 2 \<le> ndim
                    then gpu_sizes[ndim - 2 := align_up (val_at (- 2) sizes) 4]
                    else gpu_sizes
                | kChannelsPacked \<Rightarrow>
                    if 3 \<le> ndim
                    then gpu_sizes[ndim - 3 := align_up (val_at (- 3) sizes) 4]
                    else gpu_sizes)))"

text \<open>
  \<^verbatim>\<open>create_image_extents\<close>. The four downcasts run in the source's order, so the
  first one that throws decides the error. The \<^verbatim>\<open>default\<close> branch of the
  \<^verbatim>\<open>switch\<close> is not reachable from the three values of the enum.
\<close>

definition create_image_extents :: "int list \<Rightarrow> StorageType \<Rightarrow> GPUMemoryLayout \<Rightarrow> error + uvec3" where
  "create_image_extents gpu_sizes storage_type memory_layout =
     (let ndim = length gpu_sizes in
      if storage_type = kBuffer then Inr (Vec3 0 0 0)
      else if \<not> (1 \<le> ndim \<and> ndim \<le> 4) then Inl (InvalidArgument TextureNdimExtents)
      else
        case safe_downcast_u32 (val_at (- 1) gpu_sizes) of Inl e \<Rightarrow> Inl e | Inr width \<Rightarrow>
        case safe_downcast_u32 (val_at (- 2) gpu_sizes) of Inl e \<Rightarrow> Inl e | Inr height \<Rightarrow>
        case safe_downcast_u32 (val_at (- 3) gpu_sizes) of Inl e \<Rightarrow> Inl e | Inr channels \<Rightarrow>
        case safe_downcast_u32 (val_at (- 4) gpu_sizes) of Inl e \<Rightarrow> Inl e | Inr batch \<Rightarrow>
        (case memory_layout of
           kWidthPacked \<Rightarrow>
             if width mod 4 \<noteq> 0 then Inl (InvalidArgument WidthNotDivisible)
             else Inr (Vec3 (width div 4) height (batch * channels))
         | kHeightPacked \<Rightarrow>
             if height mod 4 \<noteq> 0 then Inl (InvalidArgument HeightNotDivisible)
             else Inr (Vec3 width (height div 4) (batch * channels))
         | kChannelsPacked \<Rightarrow>
             if channels mod 4 \<noteq> 0 then Inl (InvalidArgument ChannelsNotDivisible)
             else Inr (Vec3 width height (batch * (channels div 4)))))"

text \<open>
  The packing policy as the spec counts it: the distance of the packed dimension from
  the end of the shape (1 = last, 2 = second-to-last, 3 = third-to-last).
\<close>

fun packed_depth :: "GPUMemoryLayout \<Rightarrow> nat" where
  "packed_depth kWidthPacked = 1"
| "packed_depth kHeightPacked = 2"
| "packed_depth kChannelsPacked = 3"



section \<open>Device collaborators\<close>

text \<open>
  Modelled from the spec: the element type \<^verbatim>\<open>api::ScalarType\<close> with
  \<^verbatim>\<open>api::element_size\<close> (Types.h). This file only singles out the half-precision
  type and asks for the size of an element.
\<close>

datatype ScalarType = kByte | kChar | kInt | kBool | kHalf | kFloat

fun element_size :: "ScalarType \<Rightarrow> int" where
  "element_size kByte = 1"
| "element_size kChar = 1"
| "element_size kInt = 4"
| "element_size kBool = 1"
| "element_size kHalf = 2"
| "element_size kFloat = 4"

text \<open>
  Modelled from the spec: \<^verbatim>\<open>api::to_vkformat\<close> (Types.h), the image format of an
  element type, kept as that type.
\<close>

datatype VkFormat = to_vkformat ScalarType

datatype VkImageType = VK_IMAGE_TYPE_2D | VK_IMAGE_TYPE_3D

text \<open>
  Modelled from the spec: the stage and access masks of Types.h, the "pipeline stage and
  access-direction (read/write bitmask)" of a recorded access.
  \<^verbatim>\<open>api::PipelineStageFlags\<close> is a \<^verbatim>\<open>uint32_t\<close> mask and \<^verbatim>\<open>api::MemoryAccessFlags\<close> a
  \<^verbatim>\<open>uint8_t\<close> mask with the bits \<^verbatim>\<open>READ\<close> and \<^verbatim>\<open>WRITE\<close>. The masks and constants
  of the Vulkan headers are 32 bits wide, and an image layout is the number of its
  enumerator.
\<close>

type_synonym PipelineStageFlags = "32 word"
type_synonym MemoryAccessFlags = "8 word"
type_synonym VkPipelineStageFlags = "32 word"
type_synonym VkAccessFlags = "32 word"
type_synonym VkImageLayout = nat

definition MemoryAccessType_NONE :: MemoryAccessFlags where
  "MemoryAccessType_NONE = 0"

definition MemoryAccessType_READ :: MemoryAccessFlags where
  "MemoryAccessType_READ = 1"

definition MemoryAccessType_WRITE :: MemoryAccessFlags where
  "MemoryAccessType_WRITE = 2"

definition VK_IMAGE_LAYOUT_UNDEFINED :: VkImageLayout where
  "VK_IMAGE_LAYOUT_UNDEFINED = 0"

definition VK_PIPELINE_STAGE_TOP_OF_PIPE_BIT :: VkPipelineStageFlags where
  "VK_PIPELINE_STAGE_TOP_OF_PIPE_BIT = 0x00000001"

definition VK_PIPELINE_STAGE_BOTTOM_OF_PIPE_BIT :: VkPipelineStageFlags where
  "VK_PIPELINE_STAGE_BOTTOM_OF_PIPE_BIT = 0x00002000"

text \<open>
  The mapping functions \<^verbatim>\<open>api::vk_stage\<close>, \<^verbatim>\<open>api::vk_access\<close> and
  \<^verbatim>\<open>api::vk_layout\<close> belong to the device collaborator and are not part of this file:
  every operation that calls them takes them as a parameter.
\<close>

record VkMapping =
  vk_stage :: "PipelineStageFlags \<Rightarrow> VkPipelineStageFlags"
  vk_access :: "PipelineStageFlags \<Rightarrow> MemoryAccessFlags \<Rightarrow> VkAccessFlags"
  vk_layout :: "PipelineStageFlags \<Rightarrow> MemoryAccessFlags \<Rightarrow> VkImageLayout"

text \<open>
  Modelled from the spec: \<^verbatim>\<open>api::VulkanImage\<close> and \<^verbatim>\<open>api::VulkanBuffer\<close> (Resource.h),
  the resource library's Image and Buffer. A resource is its handle, \<open>None\<close> for the
  null handle, with what it was created from; the "null" value is the
  default-constructed one, and a resource converts to \<^verbatim>\<open>true\<close> when its handle is not
  null.
\<close>

record VulkanImage =
  image_handle :: "nat option"
  image_extents :: uvec3
  image_vkformat :: "VkFormat option"
  image_type :: VkImageType
  image_layout :: VkImageLayout
  image_owns_memory :: bool

record VulkanBuffer =
  buffer_handle :: "nat option"
  buffer_size :: int
  buffer_owns_memory :: bool

definition null_image :: VulkanImage where
  "null_image = \<lparr>image_handle = None, image_extents = Vec3 0 0 0, image_vkformat = None,
     image_type = VK_IMAGE_TYPE_3D, image_layout = VK_IMAGE_LAYOUT_UNDEFINED,
     image_owns_memory = False\<rparr>"

definition null_buffer :: VulkanBuffer where
  "null_buffer = \<lparr>buffer_handle = None, buffer_size = 0, buffer_owns_memory = False\<rparr>"

definition image_live :: "VulkanImage \<Rightarrow> bool" where
  "image_live img \<longleftrightarrow> image_handle img \<noteq> None"

definition buffer_live :: "VulkanBuffer \<Rightarrow> bool" where
  "buffer_live buf \<longleftrightarrow> buffer_handle buf \<noteq> None"

text \<open>
  Modelled from the spec: the device context (\<^verbatim>\<open>api::Context\<close> with its adapter and
  memory allocator). It is the state behind the \<^verbatim>\<open>context_\<close> pointer, passed to and
  returned by every operation that uses the pointer: the supply of fresh handles,
  whether the allocator can satisfy a request, the device's 16-bit storage capability,
  and the two deferred-cleanup queues. \<^verbatim>\<open>create_image\<close> and
  \<^verbatim>\<open>create_storage_buffer\<close> create a resource with a fresh handle or fail with
  \<open>DeviceResourceExhausted\<close>; \<^verbatim>\<open>register_image_cleanup\<close> and
  \<^verbatim>\<open>register_buffer_cleanup\<close> take the resource over, leaving the null value behind.
  The sampler cache is not kept.
\<close>

record Context =
  next_handle :: nat
  allocator_exhausted :: bool
  has_16bit_storage :: bool
  images_to_clear :: "VulkanImage list"
  buffers_to_clear :: "VulkanBuffer list"

definition create_image ::
  "Context \<Rightarrow> uvec3 \<Rightarrow> VkFormat \<Rightarrow> VkImageType \<Rightarrow> bool \<Rightarrow> error + VulkanImage \<times> Context" where
  "create_image ctx extents fmt ty allocate_memory =
     (if allocator_exhausted ctx then Inl DeviceResourceExhausted
      else Inr (\<lparr>image_handle = Some (next_handle ctx), image_extents = extents,
                  image_vkformat = Some fmt, image_type = ty,
                  image_layout = VK_IMAGE_LAYOUT_UNDEFINED,
                  image_owns_memory = allocate_memory\<rparr>,
                ctx\<lparr>next_handle := Suc (next_handle ctx)\<rparr>))"

definition create_storage_buffer ::
  "Context \<Rightarrow> int \<Rightarrow> bool \<Rightarrow> error + VulkanBuffer \<times> Context" where
  "create_storage_buffer ctx byte_size allocate_memory =
     (if allocator_exhausted ctx then Inl DeviceResourceExhausted
      else Inr (\<lparr>buffer_handle = Some (next_handle ctx), buffer_size = byte_size,
                  buffer_owns_memory = allocate_memory\<rparr>,
                ctx\<lparr>next_handle := Suc (next_handle ctx)\<rparr>))"

definition register_image_cleanup :: "Context \<Rightarrow> VulkanImage \<Rightarrow> VulkanImage \<times> Context" where
  "register_image_cleanup ctx img =
     (null_image, ctx\<lparr>images_to_clear := images_to_clear ctx @ [img]\<rparr>)"

definition register_buffer_cleanup :: "Context \<Rightarrow> VulkanBuffer \<Rightarrow> VulkanBuffer \<times> Context" where
  "register_buffer_cleanup ctx buf =
     (null_buffer, ctx\<lparr>buffers_to_clear := buffers_to_clear ctx @ [buf]\<rparr>)"

text \<open>
  The barrier accumulator \<^verbatim>\<open>api::PipelineBarrier\<close>: the two aggregate stage masks
  \<^verbatim>\<open>stage.src\<close> and \<^verbatim>\<open>stage.dst\<close> and the two vectors of records. A record is what
  \<^verbatim>\<open>emplace_back\<close> is given, the resource by its handle.
\<close>

datatype ImageMemoryBarrier =
  ImageMemoryBarrier VkAccessFlags VkAccessFlags VkImageLayout VkImageLayout "nat option"

datatype BufferMemoryBarrier =
  BufferMemoryBarrier VkAccessFlags VkAccessFlags "nat option"

record PipelineBarrier =
  stage_src :: VkPipelineStageFlags
  stage_dst :: VkPipelineStageFlags
  images :: "ImageMemoryBarrier list"
  buffers :: "BufferMemoryBarrier list"

section \<open>vTensorStorage\<close>

record LastAccess =
  stage :: PipelineStageFlags
  access :: MemoryAccessFlags

definition no_access :: LastAccess where
  "no_access = \<lparr>stage = 0, access = 0\<rparr>"

text \<open>
  A member \<^verbatim>\<open>m_\<close> of a class is the field \<open>m_'\<close> of its record. The \<^verbatim>\<open>context_\<close>
  pointer is not a field: the context is passed to the operations that use it.
\<close>

record vTensorStorage =
  storage_type_' :: StorageType
  extents_' :: uvec3
  buffer_length_' :: int
  image_' :: VulkanImage
  buffer_' :: VulkanBuffer
  last_access_' :: LastAccess

text \<open>
  \<^verbatim>\<open>allocate_image\<close>: the \<^verbatim>\<open>switch\<close> returns the empty image for every storage type
  that is not a texture, before the allocator is asked.
\<close>

definition allocate_image ::
  "Context \<Rightarrow> uvec3 \<Rightarrow> StorageType \<Rightarrow> VkFormat \<Rightarrow> bool \<Rightarrow> error + VulkanImage \<times> Context" where
  "allocate_image context_ptr extents storage_type image_format allocate_memory =
     (case storage_type of
        kTexture3D \<Rightarrow> create_image context_ptr extents image_format VK_IMAGE_TYPE_3D allocate_memory
      | kTexture2D \<Rightarrow> create_image context_ptr extents image_format VK_IMAGE_TYPE_2D allocate_memory
      | kBuffer \<Rightarrow> Inr (null_image, context_ptr))"

text \<open>
  \<^verbatim>\<open>allocate_buffer\<close>: the byte size \<^verbatim>\<open>element_size(dtype) * numel\<close> is a 64-bit
  product, handed to the allocator as an unsigned 64-bit size.
\<close>

definition allocate_buffer ::
  "Context \<Rightarrow> int \<Rightarrow> StorageType \<Rightarrow> ScalarType \<Rightarrow> bool \<Rightarrow> error + VulkanBuffer \<times> Context" where
  "allocate_buffer context_ptr numel storage_type dtype allocate_memory =
     (case storage_type of
        kBuffer \<Rightarrow>
          create_storage_buffer context_ptr ((element_size dtype * numel) mod 2 ^ 64)
            allocate_memory
      | kTexture3D \<Rightarrow> Inr (null_buffer, context_ptr)
      | kTexture2D \<Rightarrow> Inr (null_buffer, context_ptr))"

text \<open>The constructor: the members are initialised in the order of the initialiser list.\<close>

definition new_vTensorStorage ::
  "Context \<Rightarrow> StorageType \<Rightarrow> GPUMemoryLayout \<Rightarrow> int list \<Rightarrow> ScalarType \<Rightarrow> bool
     \<Rightarrow> error + vTensorStorage \<times> Context" where
  "new_vTensorStorage context storage_type gpu_memory_layout gpu_sizes dtype allocate_memory =
     (case create_image_extents gpu_sizes storage_type gpu_memory_layout of
        Inl e \<Rightarrow> Inl e
      | Inr extents \<Rightarrow>
          (let buffer_length = multiply_integers gpu_sizes in
           case allocate_image context extents storage_type (to_vkformat dtype) allocate_memory of
             Inl e \<Rightarrow> Inl e
           | Inr (img, context1) \<Rightarrow>
               (case allocate_buffer context1 buffer_length storage_type dtype allocate_memory of
                  Inl e \<Rightarrow> Inl e
                | Inr (buf, context2) \<Rightarrow>
                    Inr (\<lparr>storage_type_' = storage_type, extents_' = extents,
                           buffer_length_' = buffer_length, image_' = img, buffer_' = buf,
                           last_access_' = no_access\<rparr>, context2))))"

definition flush :: "vTensorStorage \<Rightarrow> Context \<Rightarrow> vTensorStorage \<times> Context" where
  "flush s context =
     (let (s1, context1) =
        (if image_live (image_' s)
         then (case register_image_cleanup context (image_' s) of
                 (img, c) \<Rightarrow> (s\<lparr>image_' := img\<rparr>, c))
         else if buffer_live (buffer_' s)
         then (case register_buffer_cleanup context (buffer_' s) of
                 (buf, c) \<Rightarrow> (s\<lparr>buffer_' := buf\<rparr>, c))
         else (s, context))
      in (s1\<lparr>last_access_' := no_access\<rparr>, context1))"

text \<open>
  \<^verbatim>\<open>transition\<close>, on the storage and the caller's accumulator. \<^verbatim>\<open>image_.set_layout\<close>
  writes the layout the image records.
\<close>

definition transition ::
  "VkMapping \<Rightarrow> vTensorStorage \<Rightarrow> PipelineBarrier \<Rightarrow> PipelineStageFlags \<Rightarrow> MemoryAccessFlags
     \<Rightarrow> vTensorStorage \<times> PipelineBarrier" where
  "transition api s pipeline_barrier cur_stage cur_access =
     (let prev_stage = stage (last_access_' s);
          prev_access = access (last_access_' s);
          prev_written = (prev_access AND MemoryAccessType_WRITE \<noteq> 0);
          cur_layout = (if image_live (image_' s) then image_layout (image_' s)
                        else VK_IMAGE_LAYOUT_UNDEFINED);
          new_layout = (if image_live (image_' s) then vk_layout api cur_stage cur_access
                        else VK_IMAGE_LAYOUT_UNDEFINED);
          layout_changed = (if image_live (image_' s) then cur_layout \<noteq> new_layout else False);
          (s1, pipeline_barrier1) =
            (if prev_written \<or> layout_changed then
               (let src_stage0 = vk_stage api prev_stage;
                    src_stage = (if 0 = src_stage0 then VK_PIPELINE_STAGE_TOP_OF_PIPE_BIT
                                 else src_stage0);
                    dst_stage0 = vk_stage api cur_stage;
                    dst_stage = (if 0 = dst_stage0 then VK_PIPELINE_STAGE_BOTTOM_OF_PIPE_BIT
                                 else dst_stage0);
                    pb = pipeline_barrier\<lparr>stage_src := stage_src pipeline_barrier OR src_stage,
                                           stage_dst := stage_dst pipeline_barrier OR dst_stage\<rparr>
                in if image_live (image_' s) then
                     (s\<lparr>image_' := (image_' s)\<lparr>image_layout := new_layout\<rparr>\<rparr>,
                      pb\<lparr>images := images pb @
                          [ImageMemoryBarrier (vk_access api prev_stage prev_access)
                             (vk_access api cur_stage cur_access) cur_layout new_layout
                             (image_handle (image_' s))]\<rparr>)
                   else if buffer_live (buffer_' s) then
                     (s, pb\<lparr>buffers := buffers pb @
                          [BufferMemoryBarrier (vk_access api prev_stage prev_access)
                             (vk_access api cur_stage cur_access)
                             (buffer_handle (buffer_' s))]\<rparr>)
                   else (s, pb))
             else (s, pipeline_barrier))
      in (s1\<lparr>last_access_' := \<lparr>stage = cur_stage, access = cur_access\<rparr>\<rparr>, pipeline_barrier1))"

text \<open>
  \<^verbatim>\<open>discard_and_reallocate\<close>, statement by statement. The storage is flushed before
  the three calls that can throw, so the result carries the error, if any, together
  with the storage and the context as they are when the call returns or throws.
\<close>

definition discard_and_reallocate ::
  "vTensorStorage \<Rightarrow> Context \<Rightarrow> int list \<Rightarrow> GPUMemoryLayout \<Rightarrow> ScalarType
     \<Rightarrow> error option \<times> vTensorStorage \<times> Context" where
  "discard_and_reallocate s context gpu_sizes gpu_memory_layout dtype =
     (let image_owns = image_owns_memory (image_' s);
          buffer_owns = buffer_owns_memory (buffer_' s);
          (s1, context1) = flush s context
      in case create_image_extents gpu_sizes (storage_type_' s1) gpu_memory_layout of
           Inl e \<Rightarrow> (Some e, s1, context1)
         | Inr extents \<Rightarrow>
             (let s2 = s1\<lparr>extents_' := extents\<rparr> in
              case allocate_image context1 (extents_' s2) (storage_type_' s2) (to_vkformat dtype)
                     image_owns of
                Inl e \<Rightarrow> (Some e, s2, context1)
              | Inr (img, context2) \<Rightarrow>
                  (let s3 = s2\<lparr>image_' := img\<rparr>;
                       s4 = s3\<lparr>buffer_length_' := multiply_integers gpu_sizes\<rparr>
                   in case allocate_buffer context2 (buffer_length_' s4) (storage_type_' s4) dtype
                             buffer_owns of
                        Inl e \<Rightarrow> (Some e, s4, context2)
                      | Inr (buf, context3) \<Rightarrow> (None, s4\<lparr>buffer_' := buf\<rparr>, context3))))"

section \<open>vTensor\<close>

datatype 'a vec4 = Vec4 'a 'a 'a 'a

type_synonym ivec4 = "32 word vec4"

record PackedDimMeta =
  dim_size :: "32 word"
  dim_size_padded :: "32 word"
  dim_texel_len :: "32 word"
  padding :: "32 word"

text \<open>
  A \<^verbatim>\<open>api::UniformParamsBuffer\<close> is \<open>None\<close> while it has no buffer and \<open>Some\<close> of
  its contents once created; \<^verbatim>\<open>update\<close> overwrites the contents.
\<close>

record vTensor =
  dtype_' :: ScalarType
  memory_layout_' :: GPUMemoryLayout
  sizes_' :: "int list"
  gpu_sizes_' :: "int list"
  texture_limits_' :: ivec3
  sizes_uniform_' :: "ivec4 option"
  texture_limits_uniform_' :: "ivec3 option"
  packed_dim_meta_' :: "PackedDimMeta option"
  storage_' :: vTensorStorage

text \<open>The accessors \<^verbatim>\<open>storage_type()\<close> and \<^verbatim>\<open>extents()\<close> of Tensor.h read the storage.\<close>

definition storage_type :: "vTensor \<Rightarrow> StorageType" where
  "storage_type t = storage_type_' (storage_' t)"

definition extents :: "vTensor \<Rightarrow> uvec3" where
  "extents t = extents_' (storage_' t)"

text \<open>
  Modelled from the spec: \<^verbatim>\<open>vTensor::gpu_memory_layout_int\<close> (Tensor.h), the index of
  the packed dimension counted from the innermost one, so that \<open>-(packed_dim + 1)\<close> is
  the packed entry from the end (width last, height second-to-last, channels
  third-to-last).
\<close>

fun gpu_memory_layout_int :: "GPUMemoryLayout \<Rightarrow> nat" where
  "gpu_memory_layout_int kWidthPacked = 0"
| "gpu_memory_layout_int kHeightPacked = 1"
| "gpu_memory_layout_int kChannelsPacked = 2"

text \<open>
  Modelled from the spec: \<^verbatim>\<open>api::utils::make_whcn_ivec4\<close> (Utils.h), the contents of
  the sizes-UBO: the logical shape in width, height, channel, batch order, right-aligned
  with missing entries 1, each entry narrowed to \<^verbatim>\<open>int32_t\<close>.
\<close>

definition make_whcn_ivec4 :: "int list \<Rightarrow> ivec4" where
  "make_whcn_ivec4 arr =
     Vec4 (word_of_int (val_at (- 1) arr)) (word_of_int (val_at (- 2) arr))
          (word_of_int (val_at (- 3) arr)) (word_of_int (val_at (- 4) arr))"

text \<open>
  \<^verbatim>\<open>make_packed_dim_metadata\<close>: the two sizes are narrowed to \<^verbatim>\<open>int32_t\<close> by
  assignment, the texel length by the checked cast.
\<close>

definition make_packed_dim_metadata :: "vTensor \<Rightarrow> error + PackedDimMeta" where
  "make_packed_dim_metadata t =
     (let packed_dim = gpu_memory_layout_int (memory_layout_' t);
          size0 = word_of_int (val_at (- (int packed_dim + 1)) (sizes_' t));
          size_padded = word_of_int (val_at (- (int packed_dim + 1)) (gpu_sizes_' t))
      in case safe_downcast_i32 (data (extents t) packed_dim) of
           Inl e \<Rightarrow> Inl e
         | Inr texel_len \<Rightarrow>
             Inr \<lparr>dim_size = size0, dim_size_padded = size_padded,
                  dim_texel_len = texel_len, padding = size_padded - size0\<rparr>)"

text \<open>The three extents of an image as \<^verbatim>\<open>int32_t\<close>, each by the checked cast.\<close>

definition downcast_limits :: "uvec3 \<Rightarrow> error + ivec3" where
  "downcast_limits e =
     (case safe_downcast_i32 (data e 0) of Inl err \<Rightarrow> Inl err | Inr x \<Rightarrow>
      case safe_downcast_i32 (data e 1) of Inl err \<Rightarrow> Inl err | Inr y \<Rightarrow>
      case safe_downcast_i32 (data e 2) of Inl err \<Rightarrow> Inl err | Inr z \<Rightarrow>
      Inr (Vec3 x y z))"

text \<open>
  The constructor. The capability check reads the global context, which is the context
  of the model.
\<close>

definition new_vTensor ::
  "Context \<Rightarrow> int list \<Rightarrow> ScalarType \<Rightarrow> StorageType \<Rightarrow> GPUMemoryLayout \<Rightarrow> bool
     \<Rightarrow> error + vTensor \<times> Context" where
  "new_vTensor context sizes dtype storage_type0 memory_layout allocate_memory =
     (case calc_gpu_sizes sizes memory_layout storage_type0 of
        Inl e \<Rightarrow> Inl e
      | Inr gpu_sizes \<Rightarrow>
     (case new_vTensorStorage context storage_type0 memory_layout gpu_sizes dtype
             allocate_memory of
        Inl e \<Rightarrow> Inl e
      | Inr (storage, context1) \<Rightarrow>
     (case (if storage_type0 \<noteq> kBuffer then downcast_limits (extents_' storage)
            else Inr (Vec3 0 0 0)) of
        Inl e \<Rightarrow> Inl e
      | Inr limits \<Rightarrow>
          if dtype = kHalf \<and> \<not> has_16bit_storage context1 then Inl UnsupportedConfiguration
          else Inr (\<lparr>dtype_' = dtype, memory_layout_' = memory_layout, sizes_' = sizes,
                      gpu_sizes_' = gpu_sizes, texture_limits_' = limits,
                      sizes_uniform_' = None, texture_limits_uniform_' = None,
                      packed_dim_meta_' = None, storage_' = storage\<rparr>, context1))))"

text \<open>
  The lazily created uniform buffers: \<^verbatim>\<open>sizes_ubo\<close>, \<^verbatim>\<open>texture_limits_ubo\<close> and
  \<^verbatim>\<open>packed_dim_meta_ubo\<close> create the buffer on the first call only. The binding they
  return is not kept.
\<close>

definition sizes_ubo :: "vTensor \<Rightarrow> vTensor" where
  "sizes_ubo t =
     (if sizes_uniform_' t = None
      then t\<lparr>sizes_uniform_' := Some (make_whcn_ivec4 (sizes_' t))\<rparr> else t)"

definition texture_limits_ubo :: "vTensor \<Rightarrow> vTensor" where
  "texture_limits_ubo t =
     (if texture_limits_uniform_' t = None
      then t\<lparr>texture_limits_uniform_' := Some (texture_limits_' t)\<rparr> else t)"

definition packed_dim_meta_ubo :: "vTensor \<Rightarrow> error + vTensor" where
  "packed_dim_meta_ubo t =
     (if packed_dim_meta_' t = None
      then (case make_packed_dim_metadata t of
              Inl e \<Rightarrow> Inl e
            | Inr m \<Rightarrow> Inr (t\<lparr>packed_dim_meta_' := Some m\<rparr>))
      else Inr t)"

text \<open>
  \<^verbatim>\<open>update_size_metadata\<close>, statement by statement: the sizes, the physical sizes, for
  a texture the limits from the virtual extents, then each uniform buffer that exists.
\<close>

definition update_size_metadata :: "vTensor \<Rightarrow> int list \<Rightarrow> error + vTensor" where
  "update_size_metadata t new_sizes =
     (let t1 = t\<lparr>sizes_' := new_sizes\<rparr> in
      case calc_gpu_sizes (sizes_' t1) (memory_layout_' t1) (storage_type t1) of
        Inl e \<Rightarrow> Inl e
      | Inr gpu_sizes \<Rightarrow>
     (let t2 = t1\<lparr>gpu_sizes_' := gpu_sizes\<rparr> in
      case (if storage_type t2 \<noteq> kBuffer then
              (case create_image_extents (gpu_sizes_' t2) (storage_type t2) (memory_layout_' t2) of
                 Inl e \<Rightarrow> Inl e
               | Inr virtual_extents \<Rightarrow>
                   (case downcast_limits virtual_extents of
                      Inl e \<Rightarrow> Inl e
                    | Inr limits \<Rightarrow> Inr (t2\<lparr>texture_limits_' := limits\<rparr>)))
            else Inr t2) of
        Inl e \<Rightarrow> Inl e
      | Inr t3 \<Rightarrow>
     (let t4 = (if sizes_uniform_' t3 \<noteq> None
                then t3\<lparr>sizes_uniform_' := Some (make_whcn_ivec4 (sizes_' t3))\<rparr> else t3);
          t5 = (if texture_limits_uniform_' t4 \<noteq> None
                then t4\<lparr>texture_limits_uniform_' := Some (texture_limits_' t4)\<rparr> else t4)
      in if packed_dim_meta_' t5 \<noteq> None
         then (case make_packed_dim_metadata t5 of
                 Inl e \<Rightarrow> Inl e
               | Inr m \<Rightarrow> Inr (t5\<lparr>packed_dim_meta_' := Some m\<rparr>))
         else Inr t5)))"

text \<open>
  \<^verbatim>\<open>virtual_resize\<close>. The extents that are compared with the allocated ones are
  computed from the member \<^verbatim>\<open>gpu_sizes_\<close>, as the source has it, before
  \<^verbatim>\<open>update_size_metadata\<close> runs.
\<close>

definition virtual_resize :: "vTensor \<Rightarrow> int list \<Rightarrow> error + vTensor" where
  "virtual_resize t new_sizes =
     (case (if storage_type t \<noteq> kBuffer then
              (case create_image_extents (gpu_sizes_' t) (storage_type t) (memory_layout_' t) of
                 Inl e \<Rightarrow> Inl e
               | Inr virtual_extents \<Rightarrow>
                   (let valid_resize0 = (data virtual_extents 0 \<le> data (extents t) 0);
                        valid_resize1 = (valid_resize0 \<and> data virtual_extents 1 \<le> data (extents t) 1);
                        valid_resize = (valid_resize1 \<and> data virtual_extents 2 \<le> data (extents t) 2)
                    in if \<not> valid_resize then Inl (InvalidArgument LargerTexture) else Inr ()))
            else Inr ()) of
        Inl e \<Rightarrow> Inl e
      | Inr _ \<Rightarrow> update_size_metadata t new_sizes)"

definition reallocate :: "vTensor \<Rightarrow> Context \<Rightarrow> int list \<Rightarrow> error + vTensor \<times> Context" where
  "reallocate t context new_sizes =
     (case update_size_metadata t new_sizes of
        Inl e \<Rightarrow> Inl e
      | Inr t1 \<Rightarrow>
     (case calc_gpu_sizes new_sizes (memory_layout_' t1) (storage_type t1) of
        Inl e \<Rightarrow> Inl e
      | Inr gpu_sizes \<Rightarrow>
     (case discard_and_reallocate (storage_' t1) context gpu_sizes (memory_layout_' t1)
             (dtype_' t1) of
        (Some e, storage, context1) \<Rightarrow> Inl e
      | (None, storage, context1) \<Rightarrow> Inr (t1\<lparr>storage_' := storage\<rparr>, context1))))"

text \<open>
  The extents a logical shape implies: the physical shape of the layout calculator,
  then its image extents. This is what the constructor allocates for a shape.
\<close>

definition implied_extents :: "int list \<Rightarrow> GPUMemoryLayout \<Rightarrow> StorageType \<Rightarrow> error + uvec3" where
  "implied_extents sizes memory_layout storage_type0 =
     (case calc_gpu_sizes sizes memory_layout storage_type0 of
        Inl e \<Rightarrow> Inl e
      | Inr gpu_sizes \<Rightarrow> create_image_extents gpu_sizes storage_type0 memory_layout)"

text \<open>Component-wise comparison of two extents.\<close>

definition extents_le :: "uvec3 \<Rightarrow> uvec3 \<Rightarrow> bool" where
  "extents_le a b \<longleftrightarrow> data a 0 \<le> data b 0 \<and> data a 1 \<le> data b 1 \<and> data a 2 \<le> data b 2"


section \<open>The resource invariant and sample values\<close>

text \<open>
  The invariant of the data model: the storage kind selects the one live resource, and
  the other resource is the null value.
\<close>

definition one_resource_live :: "vTensorStorage \<Rightarrow> bool" where
  "one_resource_live s \<longleftrightarrow>
     (if storage_type_' s = kBuffer
      then image_' s = null_image \<and> buffer_live (buffer_' s)
      else buffer_' s = null_buffer \<and> image_live (image_' s))"

text \<open>
  Sample values for the concrete instances below: a device context, the tensor that the
  constructor builds from the shape \<open>[1, 4, 4, 4]\<close> (channels-packed, 3D texture) after
  \<^verbatim>\<open>sizes_ubo\<close> and \<^verbatim>\<open>packed_dim_meta_ubo\<close> were called, the buffer storage that the
  constructor builds from the physical shape \<open>[12]\<close>, a stage and access mapping, and
  an empty accumulator.
\<close>

definition sample_context :: Context where
  "sample_context = \<lparr>next_handle = 1, allocator_exhausted = False, has_16bit_storage = True,
     images_to_clear = [], buffers_to_clear = []\<rparr>"

definition sample_tensor :: vTensor where
  "sample_tensor =
     \<lparr>dtype_' = kFloat, memory_layout_' = kChannelsPacked, sizes_' = [1, 4, 4, 4],
      gpu_sizes_' = [1, 4, 4, 4], texture_limits_' = Vec3 4 4 1,
      sizes_uniform_' = Some (Vec4 4 4 4 1), texture_limits_uniform_' = None,
      packed_dim_meta_' =
        Some \<lparr>dim_size = 4, dim_size_padded = 4, dim_texel_len = 1, padding = 0\<rparr>,
      storage_' =
        \<lparr>storage_type_' = kTexture3D, extents_' = Vec3 4 4 1, buffer_length_' = 64,
         image_' =
           \<lparr>image_handle = Some 1, image_extents = Vec3 4 4 1,
            image_vkformat = Some (to_vkformat kFloat), image_type = VK_IMAGE_TYPE_3D,
            image_layout = VK_IMAGE_LAYOUT_UNDEFINED, image_owns_memory = True\<rparr>,
         buffer_' = null_buffer, last_access_' = no_access\<rparr>\<rparr>"

definition sample_buffer_storage :: vTensorStorage where
  "sample_buffer_storage =
     \<lparr>storage_type_' = kBuffer, extents_' = Vec3 0 0 0, buffer_length_' = 12,
      image_' = null_image,
      buffer_' = \<lparr>buffer_handle = Some 1, buffer_size = 48, buffer_owns_memory = True\<rparr>,
      last_access_' = no_access\<rparr>"

definition sample_mapping :: VkMapping where
  "sample_mapping =
     \<lparr>vk_stage = (\<lambda>st. st),
      vk_access = (\<lambda>st ac. if ac AND MemoryAccessType_WRITE \<noteq> 0 then 0x40 else 0x20),
      vk_layout = (\<lambda>st ac. if ac AND MemoryAccessType_WRITE \<noteq> 0 then 1 else 5)\<rparr>"

definition sample_barrier :: PipelineBarrier where
  "sample_barrier = \<lparr>stage_src = 0, stage_dst = 0, images = [], buffers = []\<rparr>"

section \<open>Layout calculator: properties\<close>


lemma wrap_int64_mod4: "wrap_int64 v mod 4 = v mod 4"
proof -
  have "((v + 2 ^ 63) mod 2 ^ 64) mod 4 = (v + 2 ^ 63) mod 4"
    by (rule mod_mod_cancel) simp
  then have "((v + 2 ^ 63) mod 2 ^ 64 - 2 ^ 63) mod 4 = (v + 2 ^ 63 - 2 ^ 63) mod 4"
    by (metis mod_diff_left_eq)
  then show ?thesis by (simp add: wrap_int64_def)
qed

lemma align_up_4_mod: "align_up n 4 mod 4 = 0"
  by (simp add: align_up_def wrap_int64_mod4)





lemma val_at_neg_in_range:
  "0 < k \<Longrightarrow> k \<le> length sizes \<Longrightarrow> val_at (- int k) sizes = sizes ! (length sizes - k)"
  by (simp add: val_at_def Let_def nat_diff_distrib' of_nat_diff)






lemma nchw_right_aligned:
  "length S \<le> 4 \<Longrightarrow>
     [val_at (- 4) S, val_at (- 3) S, val_at (- 2) S, val_at (- 1) S] = replicate (4 - length S) 1 @ S"
  by (auto simp: val_at_def numeral_eq_Suc le_Suc_eq length_Suc_conv)

lemma calc_gpu_sizes_texture:
  assumes K: "K \<noteq> kBuffer" and len: "length S \<le> 4"
  shows "calc_gpu_sizes S P K =
     Inr ((replicate (4 - length S) 1 @ S)
            [4 - packed_depth P := align_up ((replicate (4 - length S) 1 @ S) ! (4 - packed_depth P)) 4])"
proof -
  let ?N = "[val_at (- 4) S, val_at (- 3) S, val_at (- 2) S, val_at (- 1) S]"
  have "calc_gpu_sizes S P K = Inr (?N[4 - packed_depth P := align_up (?N ! (4 - packed_depth P)) 4])"
    using K len by (cases P) (simp_all add: calc_gpu_sizes_def)
  then show ?thesis
    by (simp only: nchw_right_aligned [OF len])
qed






lemma word32_mod4:
  assumes "0 \<le> v" "v < 2 ^ 32"
  shows "((word_of_int v :: 32 word) mod 4 = 0) = (v mod 4 = 0)"
proof -
  have "((word_of_int v :: 32 word) mod 4 = 0) = (uint ((word_of_int v :: 32 word) mod 4) = 0)"
    by (simp add: uint_0_iff)
  also have "uint ((word_of_int v :: 32 word) mod 4) = v mod 4"
    using assms by (simp add: uint_mod_distrib uint_word_of_int)
  finally show ?thesis .
qed

lemma safe_downcast_u32_Inr:
  "safe_downcast_u32 v = Inr w \<longleftrightarrow> 0 \<le> v \<and> v < 2 ^ 32 \<and> w = word_of_int v"
  by (auto simp: safe_downcast_u32_def)

lemma safe_downcast_u32_Inl:
  "safe_downcast_u32 v = Inl e \<longleftrightarrow> \<not> (0 \<le> v \<and> v < 2 ^ 32) \<and> e = InvalidArgument CastOutOfRange"
  by (auto simp: safe_downcast_u32_def)

lemma create_image_extents_divisible:
  assumes "val_at (- int (packed_depth P)) G mod 4 = 0"
  shows "create_image_extents G K P \<noteq> Inl (InvalidArgument WidthNotDivisible) \<and>
         create_image_extents G K P \<noteq> Inl (InvalidArgument HeightNotDivisible) \<and>
         create_image_extents G K P \<noteq> Inl (InvalidArgument ChannelsNotDivisible)"
  using assms
  by (cases P)
     (auto simp: create_image_extents_def Let_def safe_downcast_u32_Inr safe_downcast_u32_Inl
         word32_mod4 split: sum.splits)

text \<open>
  C7. For a logical shape \<open>S\<close> of rank at most 4, a packing policy and an image
  storage kind, the packed entry of the physical shape that \<open>calc_gpu_sizes\<close> returns
  is a multiple of 4, and \<open>create_image_extents\<close> on that shape never ends in one of
  the three "must be divisible by 4" errors.
\<close>

theorem packed_axis_division_exact:
  "K \<noteq> kBuffer \<Longrightarrow> length S \<le> 4 \<Longrightarrow>
   \<exists>gpu_sizes. calc_gpu_sizes S P K = Inr gpu_sizes \<and>
     val_at (- int (packed_depth P)) gpu_sizes mod 4 = 0 \<and>
     create_image_extents gpu_sizes K P \<noteq> Inl (InvalidArgument WidthNotDivisible) \<and>
     create_image_extents gpu_sizes K P \<noteq> Inl (InvalidArgument HeightNotDivisible) \<and>
     create_image_extents gpu_sizes K P \<noteq> Inl (InvalidArgument ChannelsNotDivisible)"
proof -
  assume K: "K \<noteq> kBuffer" and len: "length S \<le> 4"
  let ?N = "replicate (4 - length S) 1 @ S"
  let ?k = "4 - packed_depth P"
  let ?G = "?N[?k := align_up (?N ! ?k) 4]"
  have G: "calc_gpu_sizes S P K = Inr ?G"
    using K len by (rule calc_gpu_sizes_texture)
  have lenG: "length ?G = 4" using len by simp
  have k: "0 < packed_depth P" "packed_depth P \<le> length ?G"
    using lenG by (cases P; simp)+
  have "val_at (- int (packed_depth P)) ?G = ?G ! (length ?G - packed_depth P)"
    using k by (rule val_at_neg_in_range)
  also have "\<dots> = align_up (?N ! ?k) 4"
    using len by (cases P) simp_all
  finally have m: "val_at (- int (packed_depth P)) ?G mod 4 = 0"
    by (simp add: align_up_4_mod)
  note d = create_image_extents_divisible [OF m, of K]
  show ?thesis
    by (intro exI [where x = ?G] conjI G m d [THEN conjunct1]
          d [THEN conjunct2, THEN conjunct1] d [THEN conjunct2, THEN conjunct2])
qed

theorem packed_axis_division_exact_witness:
  "kTexture3D \<noteq> kBuffer \<and> length [2, 3, 5 :: int] \<le> 4 \<and>
   calc_gpu_sizes [2, 3, 5] kHeightPacked kTexture3D = Inr [1, 2, 4, 5] \<and>
   create_image_extents [1, 2, 4, 5] kTexture3D kHeightPacked = Inr (Vec3 5 1 2)"
  using packed_axis_division_exact [of kTexture3D "[2, 3, 5]" kHeightPacked]
  by (simp add: calc_gpu_sizes_def create_image_extents_def val_at_def align_up_def wrap_int64_def int64_div_def
        safe_downcast_u32_def)










section \<open>Transition: properties\<close>

lemma transition_no_barrier:
  assumes "access (last_access_' s) AND MemoryAccessType_WRITE = 0"
    and "image_live (image_' s) \<Longrightarrow> image_layout (image_' s) = vk_layout api st ac"
  shows "transition api s pb st ac = (s\<lparr>last_access_' := \<lparr>stage = st, access = ac\<rparr>\<rparr>, pb)"
  using assms by (simp add: transition_def Let_def)

lemma transition_image_barrier:
  assumes "image_live (image_' s)"
    and "access (last_access_' s) AND MemoryAccessType_WRITE \<noteq> 0 \<or>
         image_layout (image_' s) \<noteq> vk_layout api st ac"
  shows "transition api s pb st ac =
    (s\<lparr>image_' := (image_' s)\<lparr>image_layout := vk_layout api st ac\<rparr>,
       last_access_' := \<lparr>stage = st, access = ac\<rparr>\<rparr>,
     pb\<lparr>stage_src := stage_src pb OR
          (if 0 = vk_stage api (stage (last_access_' s)) then VK_PIPELINE_STAGE_TOP_OF_PIPE_BIT
           else vk_stage api (stage (last_access_' s))),
        stage_dst := stage_dst pb OR
          (if 0 = vk_stage api st then VK_PIPELINE_STAGE_BOTTOM_OF_PIPE_BIT else vk_stage api st),
        images := images pb @
          [ImageMemoryBarrier (vk_access api (stage (last_access_' s)) (access (last_access_' s)))
             (vk_access api st ac) (image_layout (image_' s)) (vk_layout api st ac)
             (image_handle (image_' s))]\<rparr>)"
  using assms by (auto simp: transition_def Let_def)

lemma transition_buffer_barrier:
  assumes "\<not> image_live (image_' s)" "buffer_live (buffer_' s)"
    and "access (last_access_' s) AND MemoryAccessType_WRITE \<noteq> 0"
  shows "transition api s pb st ac =
    (s\<lparr>last_access_' := \<lparr>stage = st, access = ac\<rparr>\<rparr>,
     pb\<lparr>stage_src := stage_src pb OR
          (if 0 = vk_stage api (stage (last_access_' s)) then VK_PIPELINE_STAGE_TOP_OF_PIPE_BIT
           else vk_stage api (stage (last_access_' s))),
        stage_dst := stage_dst pb OR
          (if 0 = vk_stage api st then VK_PIPELINE_STAGE_BOTTOM_OF_PIPE_BIT else vk_stage api st),
        buffers := buffers pb @
          [BufferMemoryBarrier (vk_access api (stage (last_access_' s)) (access (last_access_' s)))
             (vk_access api st ac) (buffer_handle (buffer_' s))]\<rparr>)"
  using assms by (auto simp: transition_def Let_def)

lemma transition_no_resource:
  assumes "\<not> image_live (image_' s)" "\<not> buffer_live (buffer_' s)"
    and "access (last_access_' s) AND MemoryAccessType_WRITE \<noteq> 0"
  shows "transition api s pb st ac =
    (s\<lparr>last_access_' := \<lparr>stage = st, access = ac\<rparr>\<rparr>,
     pb\<lparr>stage_src := stage_src pb OR
          (if 0 = vk_stage api (stage (last_access_' s)) then VK_PIPELINE_STAGE_TOP_OF_PIPE_BIT
           else vk_stage api (stage (last_access_' s))),
        stage_dst := stage_dst pb OR
          (if 0 = vk_stage api st then VK_PIPELINE_STAGE_BOTTOM_OF_PIPE_BIT else vk_stage api st)\<rparr>)"
  using assms by (auto simp: transition_def Let_def)

lemma transition_last_access:
  "last_access_' (fst (transition api s pb st ac)) = \<lparr>stage = st, access = ac\<rparr>"
  by (simp add: transition_def Let_def split: prod.splits)

lemma transition_layout_after:
  "image_live (image_' s) \<Longrightarrow>
   image_layout (image_' (fst (transition api s pb st ac))) = vk_layout api st ac"
  by (auto simp: transition_def Let_def split: prod.splits)

lemma transition_image_live:
  "image_live (image_' (fst (transition api s pb st ac))) = image_live (image_' s)"
  by (auto simp: transition_def Let_def image_live_def split: prod.splits)

lemma word_or_superset: "(x OR y) AND x = (x :: 'a::len word)"
  by (auto simp: bit_eq_iff bit_and_iff bit_or_iff)

text \<open>
  C2. On a storage with a live resource, \<open>transition\<close> appends exactly one record when
  the previous access had the WRITE bit or, for an image, the layout of the target
  (stage, access) differs from the layout the image records: an image barrier when the
  image is live, a buffer barrier otherwise. It appends nothing when the previous access
  was read-only and the layout is unchanged; in particular the second of two
  consecutive calls with the same read-only (stage, access) appends nothing.
\<close>

theorem transition_barrier_count:
  "image_live (image_' s) \<or> buffer_live (buffer_' s) \<Longrightarrow>
   (let prev_stage = stage (last_access_' s);
        prev_access = access (last_access_' s);
        prev_written = (prev_access AND MemoryAccessType_WRITE \<noteq> 0);
        layout_changed =
          (image_live (image_' s) \<and> image_layout (image_' s) \<noteq> vk_layout api st ac);
        pb1 = snd (transition api s pb st ac)
    in if prev_written \<or> layout_changed
       then if image_live (image_' s)
            then images pb1 = images pb @
                   [ImageMemoryBarrier (vk_access api prev_stage prev_access)
                      (vk_access api st ac) (image_layout (image_' s)) (vk_layout api st ac)
                      (image_handle (image_' s))] \<and>
                 buffers pb1 = buffers pb
            else buffers pb1 = buffers pb @
                   [BufferMemoryBarrier (vk_access api prev_stage prev_access)
                      (vk_access api st ac) (buffer_handle (buffer_' s))] \<and>
                 images pb1 = images pb
       else images pb1 = images pb \<and> buffers pb1 = buffers pb) \<and>
   (ac AND MemoryAccessType_WRITE = 0 \<longrightarrow>
     (let (s1, pb1) = transition api s pb st ac;
          pb2 = snd (transition api s1 pb1 st ac)
      in images pb2 = images pb1 \<and> buffers pb2 = buffers pb1))"
proof (intro conjI impI)
  assume live: "image_live (image_' s) \<or> buffer_live (buffer_' s)"
  let ?w = "access (last_access_' s) AND MemoryAccessType_WRITE \<noteq> 0"
  let ?c = "image_live (image_' s) \<and> image_layout (image_' s) \<noteq> vk_layout api st ac"
  consider (quiet) "\<not> ?w" "\<not> ?c"
    | (img) "image_live (image_' s)" "?w \<or> ?c"
    | (buf) "\<not> image_live (image_' s)" "buffer_live (buffer_' s)" "?w"
    using live by blast
  then show "let prev_stage = stage (last_access_' s);
        prev_access = access (last_access_' s);
        prev_written = (prev_access AND MemoryAccessType_WRITE \<noteq> 0);
        layout_changed =
          (image_live (image_' s) \<and> image_layout (image_' s) \<noteq> vk_layout api st ac);
        pb1 = snd (transition api s pb st ac)
    in if prev_written \<or> layout_changed
       then if image_live (image_' s)
            then images pb1 = images pb @
                   [ImageMemoryBarrier (vk_access api prev_stage prev_access)
                      (vk_access api st ac) (image_layout (image_' s)) (vk_layout api st ac)
                      (image_handle (image_' s))] \<and>
                 buffers pb1 = buffers pb
            else buffers pb1 = buffers pb @
                   [BufferMemoryBarrier (vk_access api prev_stage prev_access)
                      (vk_access api st ac) (buffer_handle (buffer_' s))] \<and>
                 images pb1 = images pb
       else images pb1 = images pb \<and> buffers pb1 = buffers pb"
  proof cases
    case quiet
    then have "transition api s pb st ac = (s\<lparr>last_access_' := \<lparr>stage = st, access = ac\<rparr>\<rparr>, pb)"
      by (intro transition_no_barrier) auto
    with quiet show ?thesis by (simp add: Let_def)
  next
    case img
    then have "access (last_access_' s) AND MemoryAccessType_WRITE \<noteq> 0 \<or>
         image_layout (image_' s) \<noteq> vk_layout api st ac"
      by blast
    from transition_image_barrier [OF img(1) this, of pb] img show ?thesis
      by (simp add: Let_def)
  next
    case buf
    from transition_buffer_barrier [OF buf, of api pb st ac] buf show ?thesis
      by (simp add: Let_def)
  qed
next
  assume ro: "ac AND MemoryAccessType_WRITE = 0"
  obtain s1 pb1 where t1: "transition api s pb st ac = (s1, pb1)"
    by (cases "transition api s pb st ac")
  have la: "access (last_access_' s1) AND MemoryAccessType_WRITE = 0"
    using transition_last_access [of api s pb st ac] ro by (simp add: t1)
  have lay: "image_live (image_' s1) \<Longrightarrow> image_layout (image_' s1) = vk_layout api st ac"
    using transition_layout_after [of s api pb st ac] transition_image_live [of api s pb st ac]
    by (simp add: t1)
  have "transition api s1 pb1 st ac = (s1\<lparr>last_access_' := \<lparr>stage = st, access = ac\<rparr>\<rparr>, pb1)"
    using la lay by (rule transition_no_barrier)
  then show "let (s1, pb1) = transition api s pb st ac;
          pb2 = snd (transition api s1 pb1 st ac)
      in images pb2 = images pb1 \<and> buffers pb2 = buffers pb1"
    by (simp add: t1)
qed

theorem transition_barrier_count_witness:
  "image_live (image_' (storage_' sample_tensor)) \<and>
   MemoryAccessType_READ AND MemoryAccessType_WRITE = 0 \<and>
   (let (s1, pb1) = transition sample_mapping (storage_' sample_tensor) sample_barrier 0x20
                      MemoryAccessType_READ;
        (s2, pb2) = transition sample_mapping s1 pb1 0x20 MemoryAccessType_READ;
        (s3, pb3) = transition sample_mapping s2 pb2 0x20 MemoryAccessType_WRITE;
        (s4, pb4) = transition sample_mapping s3 pb3 0x20 MemoryAccessType_READ
    in images pb1 = [ImageMemoryBarrier 0x20 0x20 0 5 (Some 1)] \<and>
       images pb2 = images pb1 \<and>
       images pb3 = images pb2 @ [ImageMemoryBarrier 0x20 0x40 5 1 (Some 1)] \<and>
       images pb4 = images pb3 @ [ImageMemoryBarrier 0x40 0x20 1 5 (Some 1)] \<and>
       buffers pb4 = [])"
  using transition_barrier_count [of "storage_' sample_tensor" sample_mapping "0x20"
          MemoryAccessType_READ sample_barrier]
  by (simp add: transition_def sample_tensor_def sample_mapping_def sample_barrier_def
        image_live_def no_access_def MemoryAccessType_READ_def MemoryAccessType_WRITE_def
        VK_IMAGE_LAYOUT_UNDEFINED_def VK_PIPELINE_STAGE_TOP_OF_PIPE_BIT_def)

text \<open>
  C3. Every call of \<open>transition\<close> leaves the last access equal to the target
  (stage, access). When it appends an image barrier, the image records the target
  layout afterwards, so every image barrier of a following call starts from that
  layout.
\<close>

theorem transition_hazard_state:
  "(let (s1, pb1) = transition api s pb st ac
    in last_access_' s1 = \<lparr>stage = st, access = ac\<rparr> \<and>
       (images pb1 \<noteq> images pb \<longrightarrow>
          image_layout (image_' s1) = vk_layout api st ac \<and>
          (\<forall>pb' st2 ac2. \<exists>bs.
             images (snd (transition api s1 pb' st2 ac2)) = images pb' @ bs \<and>
             (\<forall>b\<in>set bs. \<exists>a1 a2 new h.
                b = ImageMemoryBarrier a1 a2 (vk_layout api st ac) new h))))"
proof -
  obtain s1 pb1 where t1: "transition api s pb st ac = (s1, pb1)"
    by (cases "transition api s pb st ac")
  have la: "last_access_' s1 = \<lparr>stage = st, access = ac\<rparr>"
    using transition_last_access [of api s pb st ac] by (simp add: t1)
  have emitted: "image_live (image_' s)" if "images pb1 \<noteq> images pb"
  proof (rule ccontr)
    assume "\<not> image_live (image_' s)"
    then have "images (snd (transition api s pb st ac)) = images pb"
      by (auto simp: transition_def Let_def split: prod.splits)
    with that show False by (simp add: t1)
  qed
  have lay: "image_layout (image_' s1) = vk_layout api st ac" if "images pb1 \<noteq> images pb"
    using transition_layout_after [OF emitted [OF that], of api pb st ac] by (simp add: t1)
  have second: "\<exists>bs. images (snd (transition api s1 pb' st2 ac2)) = images pb' @ bs \<and>
             (\<forall>b\<in>set bs. \<exists>a1 a2 new h.
                b = ImageMemoryBarrier a1 a2 (vk_layout api st ac) new h)"
    if "images pb1 \<noteq> images pb" for pb' st2 ac2
  proof -
    have l1: "image_layout (image_' s1) = vk_layout api st ac" using that by (rule lay)
    show ?thesis
      using l1 by (auto simp: transition_def Let_def split: prod.splits)
  qed
  show ?thesis
    using la lay second by (simp add: t1)
qed

theorem transition_hazard_state_witness:
  "(let (s1, pb1) = transition sample_mapping (storage_' sample_tensor) sample_barrier 0x20
                      MemoryAccessType_WRITE
    in last_access_' s1 = \<lparr>stage = 0x20, access = MemoryAccessType_WRITE\<rparr> \<and>
       images pb1 \<noteq> images sample_barrier \<and>
       image_layout (image_' s1) = 1 \<and>
       images (snd (transition sample_mapping s1 pb1 0x20 MemoryAccessType_READ)) =
         images pb1 @ [ImageMemoryBarrier 0x40 0x20 1 5 (Some 1)])"
  using transition_hazard_state [of sample_mapping "storage_' sample_tensor" sample_barrier "0x20"
          MemoryAccessType_WRITE]
  by (simp add: transition_def sample_tensor_def sample_mapping_def sample_barrier_def
        image_live_def no_access_def MemoryAccessType_READ_def MemoryAccessType_WRITE_def
        VK_IMAGE_LAYOUT_UNDEFINED_def VK_PIPELINE_STAGE_TOP_OF_PIPE_BIT_def)

text \<open>
  C10. \<open>transition\<close> only extends the accumulator: the image and buffer records that
  were there stay in place, at most one record is appended at the end of one of the two
  lists, and the aggregate source and destination stage masks keep every bit they had.
\<close>

theorem transition_extends_accumulator:
  "\<exists>bs cs. images (snd (transition api s pb st ac)) = images pb @ bs \<and>
           buffers (snd (transition api s pb st ac)) = buffers pb @ cs \<and>
           length bs + length cs \<le> 1 \<and>
           stage_src (snd (transition api s pb st ac)) AND stage_src pb = stage_src pb \<and>
           stage_dst (snd (transition api s pb st ac)) AND stage_dst pb = stage_dst pb"
  by (auto simp: transition_def Let_def word_or_superset split: prod.splits)

section \<open>Storage and tensor: properties\<close>

lemma sample_tensor_constructed:
  "(case new_vTensor sample_context [1, 4, 4, 4] kFloat kTexture3D kChannelsPacked True of
      Inl e \<Rightarrow> None
    | Inr (t, c) \<Rightarrow>
        (case packed_dim_meta_ubo (sizes_ubo t) of Inl e \<Rightarrow> None | Inr t1 \<Rightarrow> Some t1))
   = Some sample_tensor"
  by (simp add: new_vTensor_def calc_gpu_sizes_def val_at_def align_up_def wrap_int64_def int64_div_def new_vTensorStorage_def
     create_image_extents_def safe_downcast_u32_def multiply_integers_def allocate_image_def
     allocate_buffer_def create_image_def sample_context_def downcast_limits_def
     safe_downcast_i32_def packed_dim_meta_ubo_def sizes_ubo_def make_whcn_ivec4_def
     make_packed_dim_metadata_def extents_def sample_tensor_def no_access_def)

lemma null_not_live: "\<not> image_live null_image" "\<not> buffer_live null_buffer"
  by (simp_all add: image_live_def buffer_live_def null_image_def null_buffer_def)

lemma one_resource_live_xor:
  "one_resource_live s \<Longrightarrow> image_live (image_' s) \<noteq> buffer_live (buffer_' s)"
  using null_not_live by (auto simp: one_resource_live_def split: if_splits)

lemma allocate_image_result:
  "allocate_image ctx ext K f am =
     (if K = kBuffer then Inr (null_image, ctx)
      else if allocator_exhausted ctx then Inl DeviceResourceExhausted
      else Inr (\<lparr>image_handle = Some (next_handle ctx), image_extents = ext,
                  image_vkformat = Some f,
                  image_type = (if K = kTexture3D then VK_IMAGE_TYPE_3D else VK_IMAGE_TYPE_2D),
                  image_layout = VK_IMAGE_LAYOUT_UNDEFINED, image_owns_memory = am\<rparr>,
                ctx\<lparr>next_handle := Suc (next_handle ctx)\<rparr>))"
  by (cases K) (simp_all add: allocate_image_def create_image_def)

lemma allocate_buffer_result:
  "allocate_buffer ctx n K dt am =
     (if K \<noteq> kBuffer then Inr (null_buffer, ctx)
      else if allocator_exhausted ctx then Inl DeviceResourceExhausted
      else Inr (\<lparr>buffer_handle = Some (next_handle ctx),
                  buffer_size = (element_size dt * n) mod 2 ^ 64, buffer_owns_memory = am\<rparr>,
                ctx\<lparr>next_handle := Suc (next_handle ctx)\<rparr>))"
  by (cases K) (simp_all add: allocate_buffer_def create_storage_buffer_def)

lemma new_vTensorStorage_returns:
  assumes "\<not> allocator_exhausted ctx" "create_image_extents G K P = Inr e"
  shows "\<exists>s ctx'. new_vTensorStorage ctx K P G dt am = Inr (s, ctx') \<and>
           storage_type_' s = K \<and> one_resource_live s"
  using assms
  by (cases "K = kBuffer")
     (simp_all add: new_vTensorStorage_def allocate_image_result allocate_buffer_result
        one_resource_live_def image_live_def buffer_live_def Let_def)

lemma new_vTensorStorage_live:
  assumes "new_vTensorStorage ctx K P G dt am = Inr (s, ctx')"
  shows "storage_type_' s = K \<and> one_resource_live s"
  using assms
  by (auto simp: new_vTensorStorage_def allocate_image_result allocate_buffer_result
        one_resource_live_def image_live_def buffer_live_def Let_def
        split: sum.splits if_splits)

lemma flush_result:
  "flush s ctx = (s1, c1) \<Longrightarrow>
     storage_type_' s1 = storage_type_' s \<and> allocator_exhausted c1 = allocator_exhausted ctx \<and>
     (one_resource_live s \<longrightarrow> \<not> image_live (image_' s1) \<and> \<not> buffer_live (buffer_' s1))"
  using null_not_live
  by (auto simp: flush_def Let_def register_image_cleanup_def register_buffer_cleanup_def
        one_resource_live_def split: if_splits)

lemma discard_and_reallocate_result:
  "case discard_and_reallocate prev ctx G P dt of
     (None, s, ctx') \<Rightarrow> storage_type_' s = storage_type_' prev \<and> one_resource_live s
   | (Some err, s, ctx') \<Rightarrow>
       one_resource_live prev \<longrightarrow> \<not> image_live (image_' s) \<and> \<not> buffer_live (buffer_' s)"
proof -
  obtain s1 c1 where f: "flush prev ctx = (s1, c1)" by (cases "flush prev ctx")
  note r = flush_result [OF f]
  show ?thesis
    using r null_not_live
    by (auto simp: discard_and_reallocate_def f Let_def allocate_image_result
          allocate_buffer_result one_resource_live_def image_live_def buffer_live_def
          split: sum.splits if_splits)
qed

lemma discard_and_reallocate_returns:
  assumes "\<not> allocator_exhausted ctx" "create_image_extents G (storage_type_' prev) P = Inr e"
  shows "fst (discard_and_reallocate prev ctx G P dt) = None"
proof -
  obtain s1 c1 where f: "flush prev ctx = (s1, c1)" by (cases "flush prev ctx")
  note r = flush_result [OF f]
  show ?thesis
    using r assms
    by (simp add: discard_and_reallocate_def f Let_def allocate_image_result
          allocate_buffer_result)
qed

lemma sample_storage_constructed:
  "new_vTensorStorage sample_context kTexture3D kChannelsPacked [1, 4, 4, 4] kFloat True =
     Inr (storage_' sample_tensor, sample_context\<lparr>next_handle := 2\<rparr>)"
  by (simp add: new_vTensorStorage_def create_image_extents_def val_at_def safe_downcast_u32_def
       multiply_integers_def wrap_int64_def allocate_image_def allocate_buffer_def
       create_image_def sample_context_def sample_tensor_def)

lemma sample_buffer_storage_constructed:
  "new_vTensorStorage sample_context kBuffer kWidthPacked [12] kFloat True =
     Inr (sample_buffer_storage, sample_context\<lparr>next_handle := 2\<rparr>)"
  by (simp add: new_vTensorStorage_def create_image_extents_def
       multiply_integers_def wrap_int64_def allocate_image_def allocate_buffer_def
       create_storage_buffer_def sample_context_def sample_buffer_storage_def)

lemma sample_storage_reallocated:
  "discard_and_reallocate (storage_' sample_tensor) (sample_context\<lparr>next_handle := 2\<rparr>)
     [1, 4, 8, 8] kChannelsPacked kFloat =
   (None,
    storage_' sample_tensor
      \<lparr>extents_' := Vec3 8 8 1,
       image_' := (image_' (storage_' sample_tensor))
         \<lparr>image_handle := Some 2, image_extents := Vec3 8 8 1\<rparr>,
       buffer_length_' := 256\<rparr>,
    sample_context\<lparr>next_handle := 3,
      images_to_clear := [image_' (storage_' sample_tensor)]\<rparr>)"
  by (simp add: discard_and_reallocate_def flush_def register_image_cleanup_def image_live_def
       create_image_extents_def val_at_def safe_downcast_u32_def
       multiply_integers_def wrap_int64_def allocate_image_def allocate_buffer_def
       create_image_def sample_context_def sample_tensor_def null_buffer_def no_access_def)

lemma sample_buffer_storage_reallocated:
  "discard_and_reallocate sample_buffer_storage (sample_context\<lparr>next_handle := 2\<rparr>)
     [20] kWidthPacked kFloat =
   (None,
    sample_buffer_storage
      \<lparr>buffer_length_' := 20,
       buffer_' := \<lparr>buffer_handle = Some 2, buffer_size = 80, buffer_owns_memory = True\<rparr>\<rparr>,
    sample_context\<lparr>next_handle := 3,
      buffers_to_clear := [buffer_' sample_buffer_storage]\<rparr>)"
  by (simp add: discard_and_reallocate_def flush_def register_buffer_cleanup_def image_live_def
       buffer_live_def create_image_extents_def
       multiply_integers_def wrap_int64_def allocate_image_def allocate_buffer_def
       create_storage_buffer_def sample_context_def sample_buffer_storage_def null_image_def
       null_buffer_def no_access_def)

text \<open>
  C9, as amended. The construction of a storage returns whenever the image extents can
  be computed and the allocator is not exhausted, and so does
  \<open>discard_and_reallocate\<close>. After every construction and every
  \<open>discard_and_reallocate\<close> that returns, exactly one of the image and the buffer is
  live, selected by the storage kind: for the buffer kind the image is the null image
  and the buffer is live, for the texture kinds the buffer is the null buffer and the
  image is live; \<open>allocate_image\<close> returns the null image for the buffer kind and
  \<open>allocate_buffer\<close> the null buffer for the texture kinds. A
  \<open>discard_and_reallocate\<close> that throws leaves a storage that had one live resource
  with neither resource live.
\<close>

theorem storage_one_resource_live:
  "(\<not> allocator_exhausted ctx \<and> create_image_extents G K P = Inr e \<longrightarrow>
      (\<exists>s ctx'. new_vTensorStorage ctx K P G dt am = Inr (s, ctx') \<and> storage_type_' s = K \<and>
         one_resource_live s \<and> image_live (image_' s) \<noteq> buffer_live (buffer_' s))) \<and>
   (new_vTensorStorage ctx K P G dt am = Inr (s, ctx') \<longrightarrow>
      storage_type_' s = K \<and> one_resource_live s \<and>
      image_live (image_' s) \<noteq> buffer_live (buffer_' s)) \<and>
   (case discard_and_reallocate prev ctx G P dt of
      (None, s, ctx') \<Rightarrow>
        storage_type_' s = storage_type_' prev \<and> one_resource_live s \<and>
        image_live (image_' s) \<noteq> buffer_live (buffer_' s)
    | (Some err, s, ctx') \<Rightarrow>
        one_resource_live prev \<longrightarrow>
        \<not> image_live (image_' s) \<and> \<not> buffer_live (buffer_' s)) \<and>
   (\<not> allocator_exhausted ctx \<and> create_image_extents G (storage_type_' prev) P = Inr e \<longrightarrow>
      fst (discard_and_reallocate prev ctx G P dt) = None) \<and>
   allocate_image ctx ext kBuffer f am = Inr (null_image, ctx) \<and>
   (K \<noteq> kBuffer \<longrightarrow> allocate_buffer ctx n K dt am = Inr (null_buffer, ctx)) \<and>
   \<not> image_live null_image \<and> \<not> buffer_live null_buffer"
proof (intro conjI impI)
  assume "\<not> allocator_exhausted ctx \<and> create_image_extents G K P = Inr e"
  then obtain s ctx' where "new_vTensorStorage ctx K P G dt am = Inr (s, ctx')"
    "storage_type_' s = K" "one_resource_live s"
    using new_vTensorStorage_returns [of ctx G K P e dt am] by blast
  then show "\<exists>s ctx'. new_vTensorStorage ctx K P G dt am = Inr (s, ctx') \<and> storage_type_' s = K \<and>
         one_resource_live s \<and> image_live (image_' s) \<noteq> buffer_live (buffer_' s)"
    using one_resource_live_xor by blast
next
  assume c: "new_vTensorStorage ctx K P G dt am = Inr (s, ctx')"
  from new_vTensorStorage_live [OF c] show "storage_type_' s = K" "one_resource_live s"
    by simp_all
  then show "image_live (image_' s) \<noteq> buffer_live (buffer_' s)"
    by (simp add: one_resource_live_xor)
next
  show "case discard_and_reallocate prev ctx G P dt of
      (None, s, ctx') \<Rightarrow>
        storage_type_' s = storage_type_' prev \<and> one_resource_live s \<and>
        image_live (image_' s) \<noteq> buffer_live (buffer_' s)
    | (Some err, s, ctx') \<Rightarrow>
        one_resource_live prev \<longrightarrow>
        \<not> image_live (image_' s) \<and> \<not> buffer_live (buffer_' s)"
    using discard_and_reallocate_result [of prev ctx G P dt] one_resource_live_xor
    by (auto split: prod.splits option.splits)
next
  assume "\<not> allocator_exhausted ctx \<and> create_image_extents G (storage_type_' prev) P = Inr e"
  then show "fst (discard_and_reallocate prev ctx G P dt) = None"
    using discard_and_reallocate_returns [of ctx G prev P e dt] by blast
next
  show "allocate_image ctx ext kBuffer f am = Inr (null_image, ctx)"
    by (simp add: allocate_image_result)
next
  assume "K \<noteq> kBuffer"
  then show "allocate_buffer ctx n K dt am = Inr (null_buffer, ctx)"
    by (simp add: allocate_buffer_result)
qed (rule null_not_live)+

theorem storage_one_resource_live_witness:
  "\<not> allocator_exhausted sample_context \<and>
   create_image_extents [12] kBuffer kWidthPacked = Inr (Vec3 0 0 0) \<and>
   new_vTensorStorage sample_context kBuffer kWidthPacked [12] kFloat True =
     Inr (sample_buffer_storage, sample_context\<lparr>next_handle := 2\<rparr>) \<and>
   one_resource_live sample_buffer_storage \<and>
   buffer_live (buffer_' sample_buffer_storage) \<and>
   \<not> image_live (image_' sample_buffer_storage) \<and>
   new_vTensorStorage sample_context kTexture3D kChannelsPacked [1, 4, 4, 4] kFloat True =
     Inr (storage_' sample_tensor, sample_context\<lparr>next_handle := 2\<rparr>) \<and>
   one_resource_live (storage_' sample_tensor) \<and>
   image_live (image_' (storage_' sample_tensor)) \<and>
   \<not> buffer_live (buffer_' (storage_' sample_tensor)) \<and>
   discard_and_reallocate (storage_' sample_tensor) (sample_context\<lparr>next_handle := 2\<rparr>)
     [1, 4, 8, 8] kChannelsPacked kFloat =
   (None,
    storage_' sample_tensor
      \<lparr>extents_' := Vec3 8 8 1,
       image_' := (image_' (storage_' sample_tensor))
         \<lparr>image_handle := Some 2, image_extents := Vec3 8 8 1\<rparr>,
       buffer_length_' := 256\<rparr>,
    sample_context\<lparr>next_handle := 3,
      images_to_clear := [image_' (storage_' sample_tensor)]\<rparr>) \<and>
   one_resource_live
     (storage_' sample_tensor
        \<lparr>extents_' := Vec3 8 8 1,
         image_' := (image_' (storage_' sample_tensor))
           \<lparr>image_handle := Some 2, image_extents := Vec3 8 8 1\<rparr>,
         buffer_length_' := 256\<rparr>) \<and>
   discard_and_reallocate sample_buffer_storage (sample_context\<lparr>next_handle := 2\<rparr>)
     [20] kWidthPacked kFloat =
   (None,
    sample_buffer_storage
      \<lparr>buffer_length_' := 20,
       buffer_' := \<lparr>buffer_handle = Some 2, buffer_size = 80, buffer_owns_memory = True\<rparr>\<rparr>,
    sample_context\<lparr>next_handle := 3,
      buffers_to_clear := [buffer_' sample_buffer_storage]\<rparr>) \<and>
   one_resource_live
     (sample_buffer_storage
        \<lparr>buffer_length_' := 20,
         buffer_' := \<lparr>buffer_handle = Some 2, buffer_size = 80, buffer_owns_memory = True\<rparr>\<rparr>) \<and>
   kTexture3D \<noteq> kBuffer \<and>
   allocate_buffer sample_context 64 kTexture3D kFloat True = Inr (null_buffer, sample_context)"
proof -
  note built_buffer = storage_one_resource_live [where ctx = sample_context and K = kBuffer
      and P = kWidthPacked and G = "[12]" and dt = kFloat and am = True
      and s = sample_buffer_storage and ctx' = "sample_context\<lparr>next_handle := 2\<rparr>",
      THEN conjunct2, THEN conjunct1]
  note built_image = storage_one_resource_live [where ctx = sample_context and K = kTexture3D
      and P = kChannelsPacked and G = "[1, 4, 4, 4]" and dt = kFloat and am = True
      and s = "storage_' sample_tensor" and ctx' = "sample_context\<lparr>next_handle := 2\<rparr>"
      and n = 64]
  note rebuilt_image = storage_one_resource_live [where prev = "storage_' sample_tensor"
      and ctx = "sample_context\<lparr>next_handle := 2\<rparr>" and G = "[1, 4, 8, 8]"
      and P = kChannelsPacked and dt = kFloat,
      THEN conjunct2, THEN conjunct2, THEN conjunct1]
  note rebuilt_buffer = storage_one_resource_live [where prev = sample_buffer_storage
      and ctx = "sample_context\<lparr>next_handle := 2\<rparr>" and G = "[20]"
      and P = kWidthPacked and dt = kFloat,
      THEN conjunct2, THEN conjunct2, THEN conjunct1]
  have a: "\<not> allocator_exhausted sample_context"
    by (simp add: sample_context_def)
  have b: "create_image_extents [12] kBuffer kWidthPacked = Inr (Vec3 0 0 0)"
    by (simp add: create_image_extents_def)
  have live: "image_live (image_' (storage_' sample_tensor))"
    "buffer_live (buffer_' sample_buffer_storage)"
    by (simp_all add: sample_tensor_def sample_buffer_storage_def image_live_def buffer_live_def)
  have k: "kTexture3D \<noteq> kBuffer" by simp
  from rebuilt_image have ri: "one_resource_live
     (storage_' sample_tensor
        \<lparr>extents_' := Vec3 8 8 1,
         image_' := (image_' (storage_' sample_tensor))
           \<lparr>image_handle := Some 2, image_extents := Vec3 8 8 1\<rparr>,
         buffer_length_' := 256\<rparr>)"
    unfolding sample_storage_reallocated by simp
  from rebuilt_buffer have rb: "one_resource_live
     (sample_buffer_storage
        \<lparr>buffer_length_' := 20,
         buffer_' := \<lparr>buffer_handle = Some 2, buffer_size = 80, buffer_owns_memory = True\<rparr>\<rparr>)"
    unfolding sample_buffer_storage_reallocated by simp
  from built_buffer built_image sample_storage_constructed sample_buffer_storage_constructed
    sample_storage_reallocated sample_buffer_storage_reallocated a b live k ri rb
  show ?thesis
    by blast
qed

text \<open>
  C9 as stated covers every \<open>discard_and_reallocate\<close>: when the allocator is
  exhausted the call throws after the flush, and the storage of the sample tensor is
  left with the null image and the null buffer.
\<close>

theorem discard_and_reallocate_failure_counterexample:
  "one_resource_live (storage_' sample_tensor) \<and>
   (case discard_and_reallocate (storage_' sample_tensor)
           (sample_context\<lparr>next_handle := 2, allocator_exhausted := True\<rparr>)
           [1, 4, 8, 8] kChannelsPacked kFloat of
      (err, s, c) \<Rightarrow> err = Some DeviceResourceExhausted \<and>
        storage_type_' s = kTexture3D \<and>
        \<not> image_live (image_' s) \<and> \<not> buffer_live (buffer_' s))"
  by (simp add: discard_and_reallocate_def flush_def register_image_cleanup_def image_live_def
       buffer_live_def create_image_extents_def val_at_def safe_downcast_u32_def
       allocate_image_def create_image_def sample_context_def sample_tensor_def
       null_buffer_def null_image_def one_resource_live_def)

lemma update_size_metadata_frame:
  assumes "update_size_metadata t new_sizes = Inr t'"
  shows "storage_' t' = storage_' t \<and> dtype_' t' = dtype_' t \<and>
         memory_layout_' t' = memory_layout_' t \<and>
         (sizes_uniform_' t' = None) = (sizes_uniform_' t = None) \<and>
         (texture_limits_uniform_' t' = None) = (texture_limits_uniform_' t = None) \<and>
         (packed_dim_meta_' t' = None) = (packed_dim_meta_' t = None)"
  using assms
  by (auto simp: update_size_metadata_def Let_def storage_type_def split: sum.splits if_splits)

lemma virtual_resize_update:
  "virtual_resize t new_sizes = Inr t' \<Longrightarrow> update_size_metadata t new_sizes = Inr t'"
  by (auto simp: virtual_resize_def Let_def split: sum.splits if_splits)

text \<open>
  C8. Where \<open>update_size_metadata\<close> or \<open>virtual_resize\<close> succeeds, the storage of the
  tensor (image, buffer, allocated extents, buffer length) is the one it had before, as
  are the element type and the packing policy, and no uniform buffer is created or
  dropped: only the sizes, the physical sizes, the texture limits and the contents of
  the uniform buffers that exist can change.
\<close>

theorem resize_keeps_physical_resource:
  "(update_size_metadata t new_sizes = Inr t' \<or> virtual_resize t new_sizes = Inr t') \<longrightarrow>
     storage_' t' = storage_' t \<and> dtype_' t' = dtype_' t \<and>
     memory_layout_' t' = memory_layout_' t \<and>
     (sizes_uniform_' t' = None) = (sizes_uniform_' t = None) \<and>
     (texture_limits_uniform_' t' = None) = (texture_limits_uniform_' t = None) \<and>
     (packed_dim_meta_' t' = None) = (packed_dim_meta_' t = None)"
  using update_size_metadata_frame [of t new_sizes t'] virtual_resize_update [of t new_sizes t']
  by blast


theorem resize_keeps_physical_resource_witness:
  "(case virtual_resize sample_tensor [1, 3, 2, 2] of
      Inl e \<Rightarrow> False
    | Inr t1 \<Rightarrow> storage_' t1 = storage_' sample_tensor \<and> sizes_' t1 = [1, 3, 2, 2] \<and>
        gpu_sizes_' t1 = [1, 4, 2, 2] \<and> texture_limits_' t1 = Vec3 2 2 1 \<and>
        sizes_uniform_' t1 = Some (Vec4 2 2 3 1) \<and> texture_limits_uniform_' t1 = None \<and>
        update_size_metadata sample_tensor [1, 3, 2, 2] = Inr t1)"
proof -
  let ?t1 = "sample_tensor\<lparr>sizes_' := [1, 3, 2, 2], gpu_sizes_' := [1, 4, 2, 2],
    texture_limits_' := Vec3 2 2 1, sizes_uniform_' := Some (Vec4 2 2 3 1),
    packed_dim_meta_' :=
      Some \<lparr>dim_size = 3, dim_size_padded = 4, dim_texel_len = 1, padding = 1\<rparr>\<rparr>"
  have u: "update_size_metadata sample_tensor [1, 3, 2, 2] = Inr ?t1"
    by (simp add: update_size_metadata_def storage_type_def sample_tensor_def calc_gpu_sizes_def
          val_at_def align_up_def wrap_int64_def int64_div_def create_image_extents_def safe_downcast_u32_def
          downcast_limits_def safe_downcast_i32_def make_whcn_ivec4_def
          make_packed_dim_metadata_def extents_def)
  have v: "virtual_resize sample_tensor [1, 3, 2, 2] = Inr ?t1"
    unfolding virtual_resize_def u
    by (simp add: storage_type_def sample_tensor_def create_image_extents_def val_at_def
          safe_downcast_u32_def extents_def)
  from resize_keeps_physical_resource [of sample_tensor "[1, 3, 2, 2]" ?t1] u v
  show ?thesis
    by (simp add: sample_tensor_def)
qed

text \<open>
  C1. \<open>virtual_resize\<close> compares the extents of the sizes the tensor has before the
  call, not those of the new sizes, with the allocated extents. On the tensor
  constructed from \<open>[1, 4, 4, 4]\<close> (allocated extents (4, 4, 1)) the resize to
  \<open>[1, 4, 8, 8]\<close>, whose extents (8, 8, 1) do not fit, succeeds; the following resize
  to \<open>[1, 4, 2, 2]\<close>, whose extents (2, 2, 1) fit, is refused.
\<close>

theorem virtual_resize_checks_current_sizes:
  "(case new_vTensor sample_context [1, 4, 4, 4] kFloat kTexture3D kChannelsPacked True of
      Inl e \<Rightarrow> False
    | Inr (t, c) \<Rightarrow>
        extents t = Vec3 4 4 1 \<and>
        implied_extents [1, 4, 8, 8] kChannelsPacked kTexture3D = Inr (Vec3 8 8 1) \<and>
        \<not> extents_le (Vec3 8 8 1) (extents t) \<and>
        (case virtual_resize t [1, 4, 8, 8] of
           Inl e \<Rightarrow> False
         | Inr t1 \<Rightarrow>
             sizes_' t1 = [1, 4, 8, 8] \<and> texture_limits_' t1 = Vec3 8 8 1 \<and>
             extents t1 = Vec3 4 4 1 \<and>
             implied_extents [1, 4, 2, 2] kChannelsPacked kTexture3D = Inr (Vec3 2 2 1) \<and>
             extents_le (Vec3 2 2 1) (extents t1) \<and>
             virtual_resize t1 [1, 4, 2, 2] = Inl (InvalidArgument LargerTexture)))"
  by (simp add: new_vTensor_def calc_gpu_sizes_def val_at_def align_up_def wrap_int64_def int64_div_def new_vTensorStorage_def
     create_image_extents_def safe_downcast_u32_def multiply_integers_def allocate_image_def
     allocate_buffer_def create_image_def sample_context_def downcast_limits_def
     safe_downcast_i32_def extents_def implied_extents_def extents_le_def virtual_resize_def
     update_size_metadata_def storage_type_def)

end
